theory Spec2Isabelle
  imports Complex_Main
begin

section \<open>MindForge game core: data model\<close>

text \<open>
  The embedding follows \<^verbatim>\<open>src/js/core/game.js\<close> (class MindForge). The fields of
  \<^verbatim>\<open>this.gameState\<close> that the progression and puzzle-session code reads or writes are
  record fields of the same name. JavaScript numbers that the game computes with are
  integers here (\<^typ>\<open>int\<close>, unbounded, exact); the constant \<^verbatim>\<open>1.1\<close> of
  \<^verbatim>\<open>calculateXPForNextLevel\<close> is the exact rational 11/10, so the rounding of IEEE
  doubles is outside the model. \<^verbatim>\<open>Date.now()\<close> is a parameter \<open>now\<close>. Calls that only
  touch the DOM, the console or sessionStorage (showError, showTemporaryMessage,
  showFeedback, updateUI, logEvent, showScreen) leave the modelled state unchanged; the
  message of a showError or of a warning toast is returned as a value of type
  \<open>notice\<close>.
\<close>

datatype answer = NumAnswer int | TextAnswer string

record puzzle =
  puzzle_id :: string
  correctAnswer :: answer
  hints :: "string list option"
  points :: "int option"

record progress =
  completed :: int
  total :: int

record chamber =
  unlockLevel :: int
  puzzleCount :: int
  progress :: progress
  puzzles :: "puzzle list"

record user =
  level :: int
  xp :: int
  xpToNext :: int
  totalSolved :: int
  currentStreak :: int
  chambersUnlocked :: int

record attempt =
  chamberId :: string
  puzzleIndex :: int
  puzzle :: puzzle
  startTime :: int
  hintsUsed :: int
  attempts :: int

record analytics =
  puzzleAttempts :: int
  analytics_hintsUsed :: int
  timeSpent :: int

record gameState =
  currentChamber :: "string option"
  currentPuzzle :: "attempt option"
  user :: user
  chambers :: "(string \<times> chamber) list"
  analytics :: analytics

text \<open>
  The messages the session code can show: \<^verbatim>\<open>'This chamber is not yet unlocked.'\<close>,
  \<^verbatim>\<open>'All puzzles in this chamber are completed!'\<close>, \<^verbatim>\<open>'Puzzle not found.'\<close>,
  \<^verbatim>\<open>'No more hints available!'\<close>, \<^verbatim>\<open>'Chamber completed! Well done!'\<close>. \<open>Threw e\<close> is
  an exception leaving the method: \<open>TypeError\<close> is what JavaScript raises on a property read
  of \<^verbatim>\<open>undefined\<close> or \<^verbatim>\<open>null\<close> and on a call of something that is not a function.
  Every operation returns the message or exception, if any, and the state it leaves.
\<close>

datatype exn = SecurityError | SyntaxError | TypeError

datatype notice = NotUnlocked | ChamberExhausted | PuzzleNotFound | NoMoreHints
  | ChamberCompleted | Threw exn

text \<open>The \<^verbatim>\<open>user\<close> object the constructor builds.\<close>

definition initial_user :: user where
  "initial_user = \<lparr> level = 1, xp = 0, xpToNext = 100, totalSolved = 0,
     currentStreak = 0, chambersUnlocked = 1 \<rparr>"

definition initial_state :: "(string \<times> chamber) list \<Rightarrow> gameState" where
  "initial_state cs = \<lparr> currentChamber = None, currentPuzzle = None, user = initial_user,
     chambers = cs, analytics = \<lparr> puzzleAttempts = 0, analytics_hintsUsed = 0, timeSpent = 0 \<rparr> \<rparr>"

section \<open>Progression engine\<close>

text \<open>\<^verbatim>\<open>Math.floor(100 * Math.pow(1.1, level - 1))\<close>\<close>

definition calculateXPForNextLevel :: "int \<Rightarrow> int" where
  "calculateXPForNextLevel lvl = \<lfloor>100 * power_int (11 / 10 :: rat) (lvl - 1)\<rfloor>"

text \<open>\<^verbatim>\<open>updateUnlockedChambers\<close>: counts the chambers whose unlockLevel is at most the level.\<close>

definition updateUnlockedChambers :: "gameState \<Rightarrow> gameState" where
  "updateUnlockedChambers s =
     s\<lparr> user := (user s)\<lparr> chambersUnlocked :=
        int (length (filter (\<lambda>(k, c). unlockLevel c \<le> level (user s)) (chambers s))) \<rparr> \<rparr>"

text \<open>One pass through the body of the while loop of \<^verbatim>\<open>addXP\<close>.\<close>

definition levelUp :: "gameState \<Rightarrow> gameState" where
  "levelUp s =
     (let u1 = (user s)\<lparr> xp := xp (user s) - xpToNext (user s) \<rparr>;
          u2 = u1\<lparr> level := level u1 + 1 \<rparr>;
          u3 = u2\<lparr> xpToNext := calculateXPForNextLevel (level u2) \<rparr>
      in updateUnlockedChambers (s\<lparr> user := u3 \<rparr>))"

text \<open>
  The while loop itself. It is a partial function: \<open>None\<close> stands for a loop that never
  exits, so that its termination is a theorem and not an assumption of the model.
\<close>

partial_function (option) levelUpLoop :: "gameState \<Rightarrow> gameState option" where
  "levelUpLoop s =
     (if xp (user s) \<ge> xpToNext (user s) then levelUpLoop (levelUp s) else Some s)"

definition addXP :: "int \<Rightarrow> gameState \<Rightarrow> gameState option" where
  "addXP amount s = levelUpLoop (s\<lparr> user := (user s)\<lparr> xp := xp (user s) + amount \<rparr> \<rparr>)"

section \<open>Scoring\<close>

text \<open>\<^verbatim>\<open>calculateTimeBonus\<close>; the second tier is \<^verbatim>\<open>Math.floor(maxBonus * 0.5)\<close>.\<close>

definition calculateTimeBonus :: "int \<Rightarrow> int \<Rightarrow> int" where
  "calculateTimeBonus startTime' now =
     (let timeSpent' = now - startTime'; maxBonus = 5; fastTime = 30000
      in if timeSpent' \<le> fastTime then maxBonus
         else if timeSpent' \<le> fastTime * 2 then \<lfloor>of_int maxBonus * (1 / 2 :: rat)\<rfloor>
         else 0)"

text \<open>\<^verbatim>\<open>puzzle.points || 10\<close>: a missing or zero value is falsy.\<close>

definition basePoints :: "puzzle \<Rightarrow> int" where
  "basePoints p = (case points p of None \<Rightarrow> 10 | Some n \<Rightarrow> if n = 0 then 10 else n)"

text \<open>The score computed at the head of \<^verbatim>\<open>handleCorrectAnswer\<close>.\<close>

definition finalScore :: "attempt \<Rightarrow> int \<Rightarrow> int" where
  "finalScore cp now =
     (let timeBonus = calculateTimeBonus (startTime cp) now;
          hintPenalty = hintsUsed cp * 2;
          attemptPenalty = (attempts cp - 1) * 1
      in max 1 (basePoints (puzzle cp) + timeBonus - hintPenalty - attemptPenalty))"

section \<open>Session controller\<close>

text \<open>\<^verbatim>\<open>chambers.get(id)\<close> is \<^term>\<open>map_of\<close>; a chamber object is mutated in place.\<close>

fun update_chamber ::
  "string \<Rightarrow> (chamber \<Rightarrow> chamber) \<Rightarrow> (string \<times> chamber) list \<Rightarrow> (string \<times> chamber) list" where
  "update_chamber cid f [] = []"
| "update_chamber cid f ((k, c) # rest) =
     (if k = cid then (k, f c) # rest else (k, c) # update_chamber cid f rest)"

text \<open>\<^verbatim>\<open>array[i]\<close>: \<^verbatim>\<open>undefined\<close> outside the array.\<close>

definition index :: "'a list \<Rightarrow> int \<Rightarrow> 'a option" where
  "index xs i = (if 0 \<le> i \<and> i < int (length xs) then Some (xs ! nat i) else None)"

definition startPuzzle :: "string \<Rightarrow> int \<Rightarrow> int \<Rightarrow> gameState \<Rightarrow> notice option \<times> gameState" where
  "startPuzzle cid puzzleIndex' now s =
     (case map_of (chambers s) cid of
        None \<Rightarrow> (Some (Threw TypeError), s)
      | Some chamber \<Rightarrow>
          (case index (puzzles chamber) puzzleIndex' of
             None \<Rightarrow> (Some PuzzleNotFound, s)
           | Some p \<Rightarrow>
               (None, s\<lparr> currentPuzzle := Some \<lparr> chamberId = cid, puzzleIndex = puzzleIndex',
                   puzzle = p, startTime = now, hintsUsed = 0, attempts = 0 \<rparr> \<rparr>)))"

definition enterChamber :: "string \<Rightarrow> int \<Rightarrow> gameState \<Rightarrow> notice option \<times> gameState" where
  "enterChamber cid now s =
     (case map_of (chambers s) cid of
        None \<Rightarrow> (Some NotUnlocked, s)
      | Some chamber \<Rightarrow>
          if unlockLevel chamber > level (user s) then (Some NotUnlocked, s)
          else
            let s1 = s\<lparr> currentChamber := Some cid \<rparr>;
                nextPuzzleIndex = completed (progress chamber)
            in if nextPuzzleIndex < int (length (puzzles chamber))
               then startPuzzle cid nextPuzzleIndex now s1
               else (Some ChamberExhausted, s1))"

text \<open>\<^verbatim>\<open>String.prototype.toLowerCase\<close>, on ASCII letters.\<close>

definition toLowerCase :: "string \<Rightarrow> string" where
  "toLowerCase str =
     map (\<lambda>c. let n = (of_char c :: nat) in if 65 \<le> n \<and> n \<le> 90 then char_of (n + 32) else c) str"

text \<open>
  \<^verbatim>\<open>validateAnswer\<close>: strict equality against a number, lower-cased equality against a
  string; a numeric answer has no \<^verbatim>\<open>toLowerCase\<close>, so comparing it with a string throws.
\<close>

fun validateAnswer :: "answer \<Rightarrow> answer \<Rightarrow> exn + bool" where
  "validateAnswer (NumAnswer u) (NumAnswer c) = Inr (u = c)"
| "validateAnswer (TextAnswer u) (NumAnswer c) = Inr False"
| "validateAnswer (NumAnswer u) (TextAnswer c) = Inl TypeError"
| "validateAnswer (TextAnswer u) (TextAnswer c) = Inr (toLowerCase u = toLowerCase c)"

text \<open>
  \<^verbatim>\<open>handleCorrectAnswer\<close>, for the live attempt \<open>cp\<close>. The closing \<^verbatim>\<open>saveGameData()\<close> writes
  to localStorage, which is not part of the game state; it is modelled on its own below.
  \<open>None\<close> is a level-up loop that does not return.
\<close>

definition handleCorrectAnswer :: "attempt \<Rightarrow> int \<Rightarrow> gameState \<Rightarrow> (notice option \<times> gameState) option" where
  "handleCorrectAnswer cp now s =
     (case map_of (chambers s) (chamberId cp) of
        None \<Rightarrow> Some (Some (Threw TypeError), s)
      | Some chamber \<Rightarrow>
          let score = finalScore cp now;
              s1 = s\<lparr> chambers := update_chamber (chamberId cp)
                     (\<lambda>c. c\<lparr> progress := (progress c)\<lparr> completed := completed (progress c) + 1 \<rparr> \<rparr>)
                     (chambers s) \<rparr>;
              s2 = s1\<lparr> user := (user s1)\<lparr> totalSolved := totalSolved (user s1) + 1 \<rparr> \<rparr>;
              s3 = s2\<lparr> user := (user s2)\<lparr> currentStreak := currentStreak (user s2) + 1 \<rparr> \<rparr>
          in case addXP score s3 of
               None \<Rightarrow> None
             | Some s4 \<Rightarrow>
                 Some (None, s4\<lparr> analytics := (analytics s4)\<lparr> timeSpent :=
                   timeSpent (analytics s4) + (now - startTime cp) \<rparr> \<rparr>))"

definition handleIncorrectAnswer :: "attempt \<Rightarrow> gameState \<Rightarrow> notice option \<times> gameState" where
  "handleIncorrectAnswer cp s =
     (if attempts cp \<ge> 3 then (None, s\<lparr> user := (user s)\<lparr> currentStreak := 0 \<rparr> \<rparr>)
      else (None, s))"

text \<open>
  \<^verbatim>\<open>checkAnswer\<close>; the answer read from the form by \<^verbatim>\<open>getCurrentAnswer\<close> is the
  parameter \<open>userAnswer\<close> (\<open>None\<close> when nothing is selected or typed).
\<close>

definition checkAnswer :: "answer option \<Rightarrow> int \<Rightarrow> gameState \<Rightarrow> (notice option \<times> gameState) option" where
  "checkAnswer userAnswer now s =
     (case currentPuzzle s of
        None \<Rightarrow> Some (None, s)
      | Some cp0 \<Rightarrow>
          (case userAnswer of
             None \<Rightarrow> Some (None, s)
           | Some ua \<Rightarrow>
               let cp = cp0\<lparr> attempts := attempts cp0 + 1 \<rparr>;
                   s1 = s\<lparr> currentPuzzle := Some cp,
                          analytics := (analytics s)\<lparr> puzzleAttempts := puzzleAttempts (analytics s) + 1 \<rparr> \<rparr>
               in case validateAnswer ua (correctAnswer (puzzle cp)) of
                    Inl e \<Rightarrow> Some (Some (Threw e), s1)
                  | Inr isCorrect \<Rightarrow>
                      if isCorrect then handleCorrectAnswer cp now s1
                      else Some (handleIncorrectAnswer cp s1)))"

text \<open>\<^verbatim>\<open>showHint\<close>\<close>

definition showHint :: "gameState \<Rightarrow> notice option \<times> gameState" where
  "showHint s =
     (case currentPuzzle s of
        None \<Rightarrow> (None, s)
      | Some cp \<Rightarrow>
          let hints' = (case hints (puzzle cp) of None \<Rightarrow> [] | Some hs \<Rightarrow> hs);
              hintIndex = min (hintsUsed cp) (int (length hints') - 1)
          in if hintIndex \<ge> int (length hints') then (Some NoMoreHints, s)
             else (None, s\<lparr> currentPuzzle := Some (cp\<lparr> hintsUsed := hintsUsed cp + 1 \<rparr>),
                     analytics := (analytics s)\<lparr> analytics_hintsUsed :=
                       analytics_hintsUsed (analytics s) + 1 \<rparr> \<rparr>))"

text \<open>\<^verbatim>\<open>resetPuzzle\<close>\<close>

definition resetPuzzle :: "int \<Rightarrow> gameState \<Rightarrow> notice option \<times> gameState" where
  "resetPuzzle now s =
     (case currentPuzzle s of
        None \<Rightarrow> (None, s)
      | Some cp \<Rightarrow>
          (None, s\<lparr> currentPuzzle := Some (cp\<lparr> attempts := 0, hintsUsed := 0, startTime := now \<rparr>) \<rparr>))"

text \<open>\<^verbatim>\<open>nextPuzzle\<close>\<close>

definition nextPuzzle :: "int \<Rightarrow> gameState \<Rightarrow> notice option \<times> gameState" where
  "nextPuzzle now s =
     (case currentPuzzle s of
        None \<Rightarrow> (None, s)
      | Some cp \<Rightarrow>
          (case map_of (chambers s) (chamberId cp) of
             None \<Rightarrow> (Some (Threw TypeError), s)
           | Some chamber \<Rightarrow>
               let nextIndex = puzzleIndex cp + 1
               in if nextIndex < int (length (puzzles chamber))
                  then startPuzzle (chamberId cp) nextIndex now s
                  else (Some ChamberCompleted, s)))"

section \<open>Persistence\<close>

text \<open>
  \<^verbatim>\<open>saveGameData\<close> and \<^verbatim>\<open>loadGameData\<close> work on whatever objects the state holds, so this
  part is modelled at the level of JavaScript values: a value that JSON can carry is a
  \<open>json\<close> (numbers are integers), \<^verbatim>\<open>undefined\<close> is \<open>None\<close>, an object is the list of its
  own properties in insertion order, and a Map is the list of its entries in insertion
  order. The record \<open>progressState\<close> is the persisted part of \<^verbatim>\<open>this.gameState\<close>; the records
  of the session model are typed views of its objects (\<open>user_json\<close> gives the object of a
  typed profile).

  \<^verbatim>\<open>JSON.stringify\<close> and \<^verbatim>\<open>JSON.parse\<close> belong to the platform. The text kept under the
  key \<^verbatim>\<open>mindforge_save\<close> is modelled by what reading it yields: \<open>Document j\<close> is a text that
  \<^verbatim>\<open>JSON.parse\<close> turns into the value \<open>j\<close>, and \<^verbatim>\<open>JSON.stringify\<close> of a value built from
  \<open>json\<close> values writes the text of that value, with \<^verbatim>\<open>undefined\<close> array elements written
  as \<^verbatim>\<open>null\<close>.
\<close>

datatype json = JNull | JBool bool | JNum int | JStr string
  | JArr "json list" | JObj "(string \<times> json) list"

type_synonym jsobject = "(string \<times> json) list"

type_synonym jsmap = "(json option \<times> json option) list"

record progressState =
  user_object :: jsobject
  settings_object :: jsobject
  chambers_map :: jsmap

text \<open>
  What \<^verbatim>\<open>localStorage.getItem('mindforge_save')\<close> can do: throw (storage is blocked),
  return \<^verbatim>\<open>null\<close>, return the empty string, return a text that is not JSON, or return
  a JSON text.
\<close>

datatype stored = Inaccessible | Absent | EmptyText | Garbage | Document json

text \<open>The objects of the constructor.\<close>

definition user_json :: "user \<Rightarrow> jsobject" where
  "user_json u = [(''level'', JNum (level u)), (''xp'', JNum (xp u)),
     (''xpToNext'', JNum (xpToNext u)), (''totalSolved'', JNum (totalSolved u)),
     (''currentStreak'', JNum (currentStreak u)),
     (''chambersUnlocked'', JNum (chambersUnlocked u)), (''achievements'', JArr [])]"

definition initial_settings :: jsobject where
  "initial_settings = [(''soundEffects'', JBool True), (''autoHints'', JBool False),
     (''highContrast'', JBool False), (''reducedMotion'', JBool False),
     (''fontSize'', JStr ''medium'')]"

definition initial_progress :: progressState where
  "initial_progress = \<lparr> user_object = user_json initial_user,
     settings_object = initial_settings, chambers_map = [] \<rparr>"

text \<open>
  \<^verbatim>\<open>data.name\<close> for the names \<^verbatim>\<open>user\<close>, \<^verbatim>\<open>settings\<close> and \<^verbatim>\<open>chambers\<close>: a TypeError on
  \<^verbatim>\<open>null\<close>, the own property on an object, \<^verbatim>\<open>undefined\<close> on everything else (none of the
  three is a property of a string, an array, a number or a boolean).
\<close>

fun get_property :: "json \<Rightarrow> string \<Rightarrow> exn + json option" where
  "get_property JNull name = Inl TypeError"
| "get_property (JObj props) name = Inr (map_of props name)"
| "get_property other name = Inr None"

text \<open>Decimal digits of an index, as the property name of an array element.\<close>

function show_nat :: "nat \<Rightarrow> string" where
  "show_nat n =
     (if n < 10 then [char_of (48 + n)] else show_nat (n div 10) @ [char_of (48 + n mod 10)])"
  by pat_completeness auto
termination
  by (relation "measure id") auto

text \<open>
  The own enumerable properties that a spread \<^verbatim>\<open>...v\<close> copies: none for \<^verbatim>\<open>undefined\<close>,
  \<^verbatim>\<open>null\<close>, numbers and booleans, the indexed characters of a string, the indexed
  elements of an array, the properties of an object.
\<close>

fun own_properties :: "json option \<Rightarrow> jsobject" where
  "own_properties (Some (JObj props)) = props"
| "own_properties (Some (JArr xs)) = zip (map show_nat [0..<length xs]) xs"
| "own_properties (Some (JStr str)) =
     zip (map show_nat [0..<length str]) (map (\<lambda>c. JStr [c]) str)"
| "own_properties other = []"

fun set_property :: "string \<Rightarrow> json \<Rightarrow> jsobject \<Rightarrow> jsobject" where
  "set_property name v [] = [(name, v)]"
| "set_property name v ((name', v') # rest) =
     (if name' = name then (name, v) # rest else (name', v') # set_property name v rest)"

text \<open>
  \<^verbatim>\<open>{ ...a, ...b }\<close> for an object \<open>a\<close>: a copy of \<open>a\<close> on which the properties of \<open>b\<close> are set
  in order. (JavaScript enumerates integer-like names before the others; the list keeps
  insertion order, which no property read can tell apart.)
\<close>

definition spread :: "jsobject \<Rightarrow> json option \<Rightarrow> jsobject" where
  "spread a b = fold (\<lambda>(name, v). set_property name v) (own_properties b) a"

text \<open>Truthiness, as \<^verbatim>\<open>if (data.chambers)\<close> tests it.\<close>

fun truthy :: "json option \<Rightarrow> bool" where
  "truthy None = False"
| "truthy (Some JNull) = False"
| "truthy (Some (JBool b)) = b"
| "truthy (Some (JNum n)) = (n \<noteq> 0)"
| "truthy (Some (JStr str)) = (str \<noteq> [])"
| "truthy (Some (JArr xs)) = True"
| "truthy (Some (JObj props)) = True"

text \<open>
  Key equality of a Map (SameValueZero): primitive keys are equal when they are the same
  value; an array or object key made by \<^verbatim>\<open>JSON.parse\<close> is a new object, equal to no
  earlier key.
\<close>

fun same_key :: "json option \<Rightarrow> json option \<Rightarrow> bool" where
  "same_key (Some (JArr xs)) k = False"
| "same_key (Some (JObj props)) k = False"
| "same_key k' k = (k' = k)"

fun map_set :: "json option \<Rightarrow> json option \<Rightarrow> jsmap \<Rightarrow> jsmap" where
  "map_set k v [] = [(k, v)]"
| "map_set k v ((k', v') # rest) =
     (if same_key k' k then (k', v) # rest else (k', v') # map_set k v rest)"

text \<open>
  \<^verbatim>\<open>new Map(iterable)\<close>: every element of the array must be an object (an array or an
  object), whose properties \<^verbatim>\<open>0\<close> and \<^verbatim>\<open>1\<close> are key and value; anything else is a
  TypeError, as is a value that cannot be iterated or a non-empty string (its elements
  are strings).
\<close>

fun map_from_entries :: "json list \<Rightarrow> jsmap \<Rightarrow> exn + jsmap" where
  "map_from_entries [] acc = Inr acc"
| "map_from_entries (JArr kv # es) acc =
     map_from_entries es (map_set (index kv 0) (index kv 1) acc)"
| "map_from_entries (JObj props # es) acc =
     map_from_entries es (map_set (map_of props ''0'') (map_of props ''1'') acc)"
| "map_from_entries (other # es) acc = Inl TypeError"

fun new_Map :: "json option \<Rightarrow> exn + jsmap" where
  "new_Map None = Inr []"
| "new_Map (Some JNull) = Inr []"
| "new_Map (Some (JArr es)) = map_from_entries es []"
| "new_Map (Some (JStr str)) = (if str = [] then Inr [] else Inl TypeError)"
| "new_Map (Some other) = Inl TypeError"

text \<open>
  The body of the \<^verbatim>\<open>try\<close> block of \<^verbatim>\<open>loadGameData\<close>: the exception it ends with, if any, and
  the state at that point.
\<close>

definition loadGameData_try :: "stored \<Rightarrow> progressState \<Rightarrow> exn option \<times> progressState" where
  "loadGameData_try savedData s =
     (case savedData of
        Inaccessible \<Rightarrow> (Some SecurityError, s)
      | Absent \<Rightarrow> (None, s)
      | EmptyText \<Rightarrow> (None, s)
      | Garbage \<Rightarrow> (Some SyntaxError, s)
      | Document data \<Rightarrow>
          (case get_property data ''user'' of
             Inl e \<Rightarrow> (Some e, s)
           | Inr data_user \<Rightarrow>
               let s1 = s\<lparr> user_object := spread (user_object s) data_user \<rparr>
               in (case get_property data ''settings'' of
                     Inl e \<Rightarrow> (Some e, s1)
                   | Inr data_settings \<Rightarrow>
                       let s2 = s1\<lparr> settings_object := spread (settings_object s1) data_settings \<rparr>
                       in (case get_property data ''chambers'' of
                             Inl e \<Rightarrow> (Some e, s2)
                           | Inr data_chambers \<Rightarrow>
                               if truthy data_chambers
                               then (case new_Map data_chambers of
                                       Inl e \<Rightarrow> (Some e, s2)
                                     | Inr m \<Rightarrow> (None, s2\<lparr> chambers_map := m \<rparr>))
                               else (None, s2)))))"

text \<open>
  \<^verbatim>\<open>loadGameData\<close>: the \<^verbatim>\<open>catch\<close> clause takes every exception of the block and only
  writes a warning to the console. The first component is the exception that leaves
  the method.
\<close>

definition loadGameData :: "stored \<Rightarrow> progressState \<Rightarrow> exn option \<times> progressState" where
  "loadGameData savedData s =
     (case loadGameData_try savedData s of
        (None, s') \<Rightarrow> (None, s')
      | (Some e, s') \<Rightarrow> (None, s'))"

text \<open>
  \<^verbatim>\<open>saveGameData\<close>: the document that \<^verbatim>\<open>localStorage.setItem\<close> stores (when the storage
  refuses, the exception is caught and the old text stays).
\<close>

definition jsonify :: "json option \<Rightarrow> json" where
  "jsonify v = (case v of None \<Rightarrow> JNull | Some j \<Rightarrow> j)"

definition saveGameData :: "progressState \<Rightarrow> int \<Rightarrow> json" where
  "saveGameData s now =
     JObj [(''user'', JObj (user_object s)),
           (''settings'', JObj (settings_object s)),
           (''chambers'', JArr (map (\<lambda>(k, v). JArr [jsonify k, jsonify v]) (chambers_map s))),
           (''lastSaved'', JNum now)]"

text \<open>\<^verbatim>\<open>load(blob)\<close> of the specification: \<^verbatim>\<open>loadGameData\<close> in a newly constructed game.\<close>

definition load :: "stored \<Rightarrow> progressState" where
  "load savedData = snd (loadGameData savedData initial_progress)"

section \<open>The bundle \<^verbatim>\<open>public/js/app.js\<close>\<close>

text \<open>
  Lines 1 to 1329 of the bundle hold the class MindForge a second time. The definitions
  of this section embed that copy, method by method, under the prefix \<open>app_\<close>. The data
  types and the functions that model the platform (array indexing, \<^verbatim>\<open>toLowerCase\<close>, object
  spread, \<^verbatim>\<open>new Map\<close>, property reads, truthiness) are those of the sections above.
\<close>

definition app_calculateXPForNextLevel :: "int \<Rightarrow> int" where
  "app_calculateXPForNextLevel lvl = \<lfloor>100 * power_int (11 / 10 :: rat) (lvl - 1)\<rfloor>"

definition app_updateUnlockedChambers :: "gameState \<Rightarrow> gameState" where
  "app_updateUnlockedChambers s =
     s\<lparr> user := (user s)\<lparr> chambersUnlocked :=
        int (length (filter (\<lambda>(k, c). unlockLevel c \<le> level (user s)) (chambers s))) \<rparr> \<rparr>"

definition app_levelUp :: "gameState \<Rightarrow> gameState" where
  "app_levelUp s =
     (let u1 = (user s)\<lparr> xp := xp (user s) - xpToNext (user s) \<rparr>;
          u2 = u1\<lparr> level := level u1 + 1 \<rparr>;
          u3 = u2\<lparr> xpToNext := app_calculateXPForNextLevel (level u2) \<rparr>
      in app_updateUnlockedChambers (s\<lparr> user := u3 \<rparr>))"

partial_function (option) app_levelUpLoop :: "gameState \<Rightarrow> gameState option" where
  "app_levelUpLoop s =
     (if xp (user s) \<ge> xpToNext (user s) then app_levelUpLoop (app_levelUp s) else Some s)"

definition app_addXP :: "int \<Rightarrow> gameState \<Rightarrow> gameState option" where
  "app_addXP amount s = app_levelUpLoop (s\<lparr> user := (user s)\<lparr> xp := xp (user s) + amount \<rparr> \<rparr>)"

definition app_calculateTimeBonus :: "int \<Rightarrow> int \<Rightarrow> int" where
  "app_calculateTimeBonus startTime' now =
     (let timeSpent' = now - startTime'; maxBonus = 5; fastTime = 30000
      in if timeSpent' \<le> fastTime then maxBonus
         else if timeSpent' \<le> fastTime * 2 then \<lfloor>of_int maxBonus * (1 / 2 :: rat)\<rfloor>
         else 0)"

definition app_basePoints :: "puzzle \<Rightarrow> int" where
  "app_basePoints p = (case points p of None \<Rightarrow> 10 | Some n \<Rightarrow> if n = 0 then 10 else n)"

definition app_finalScore :: "attempt \<Rightarrow> int \<Rightarrow> int" where
  "app_finalScore cp now =
     (let timeBonus = app_calculateTimeBonus (startTime cp) now;
          hintPenalty = hintsUsed cp * 2;
          attemptPenalty = (attempts cp - 1) * 1
      in max 1 (app_basePoints (puzzle cp) + timeBonus - hintPenalty - attemptPenalty))"

definition app_startPuzzle :: "string \<Rightarrow> int \<Rightarrow> int \<Rightarrow> gameState \<Rightarrow> notice option \<times> gameState" where
  "app_startPuzzle cid puzzleIndex' now s =
     (case map_of (chambers s) cid of
        None \<Rightarrow> (Some (Threw TypeError), s)
      | Some chamber \<Rightarrow>
          (case index (puzzles chamber) puzzleIndex' of
             None \<Rightarrow> (Some PuzzleNotFound, s)
           | Some p \<Rightarrow>
               (None, s\<lparr> currentPuzzle := Some \<lparr> chamberId = cid, puzzleIndex = puzzleIndex',
                   puzzle = p, startTime = now, hintsUsed = 0, attempts = 0 \<rparr> \<rparr>)))"

definition app_enterChamber :: "string \<Rightarrow> int \<Rightarrow> gameState \<Rightarrow> notice option \<times> gameState" where
  "app_enterChamber cid now s =
     (case map_of (chambers s) cid of
        None \<Rightarrow> (Some NotUnlocked, s)
      | Some chamber \<Rightarrow>
          if unlockLevel chamber > level (user s) then (Some NotUnlocked, s)
          else
            let s1 = s\<lparr> currentChamber := Some cid \<rparr>;
                nextPuzzleIndex = completed (progress chamber)
            in if nextPuzzleIndex < int (length (puzzles chamber))
               then app_startPuzzle cid nextPuzzleIndex now s1
               else (Some ChamberExhausted, s1))"

fun app_validateAnswer :: "answer \<Rightarrow> answer \<Rightarrow> exn + bool" where
  "app_validateAnswer (NumAnswer u) (NumAnswer c) = Inr (u = c)"
| "app_validateAnswer (TextAnswer u) (NumAnswer c) = Inr False"
| "app_validateAnswer (NumAnswer u) (TextAnswer c) = Inl TypeError"
| "app_validateAnswer (TextAnswer u) (TextAnswer c) = Inr (toLowerCase u = toLowerCase c)"

definition app_handleCorrectAnswer :: "attempt \<Rightarrow> int \<Rightarrow> gameState \<Rightarrow> (notice option \<times> gameState) option" where
  "app_handleCorrectAnswer cp now s =
     (case map_of (chambers s) (chamberId cp) of
        None \<Rightarrow> Some (Some (Threw TypeError), s)
      | Some chamber \<Rightarrow>
          let score = app_finalScore cp now;
              s1 = s\<lparr> chambers := update_chamber (chamberId cp)
                     (\<lambda>c. c\<lparr> progress := (progress c)\<lparr> completed := completed (progress c) + 1 \<rparr> \<rparr>)
                     (chambers s) \<rparr>;
              s2 = s1\<lparr> user := (user s1)\<lparr> totalSolved := totalSolved (user s1) + 1 \<rparr> \<rparr>;
              s3 = s2\<lparr> user := (user s2)\<lparr> currentStreak := currentStreak (user s2) + 1 \<rparr> \<rparr>
          in case app_addXP score s3 of
               None \<Rightarrow> None
             | Some s4 \<Rightarrow>
                 Some (None, s4\<lparr> analytics := (analytics s4)\<lparr> timeSpent :=
                   timeSpent (analytics s4) + (now - startTime cp) \<rparr> \<rparr>))"

definition app_handleIncorrectAnswer :: "attempt \<Rightarrow> gameState \<Rightarrow> notice option \<times> gameState" where
  "app_handleIncorrectAnswer cp s =
     (if attempts cp \<ge> 3 then (None, s\<lparr> user := (user s)\<lparr> currentStreak := 0 \<rparr> \<rparr>)
      else (None, s))"

definition app_checkAnswer :: "answer option \<Rightarrow> int \<Rightarrow> gameState \<Rightarrow> (notice option \<times> gameState) option" where
  "app_checkAnswer userAnswer now s =
     (case currentPuzzle s of
        None \<Rightarrow> Some (None, s)
      | Some cp0 \<Rightarrow>
          (case userAnswer of
             None \<Rightarrow> Some (None, s)
           | Some ua \<Rightarrow>
               let cp = cp0\<lparr> attempts := attempts cp0 + 1 \<rparr>;
                   s1 = s\<lparr> currentPuzzle := Some cp,
                          analytics := (analytics s)\<lparr> puzzleAttempts := puzzleAttempts (analytics s) + 1 \<rparr> \<rparr>
               in case app_validateAnswer ua (correctAnswer (puzzle cp)) of
                    Inl e \<Rightarrow> Some (Some (Threw e), s1)
                  | Inr isCorrect \<Rightarrow>
                      if isCorrect then app_handleCorrectAnswer cp now s1
                      else Some (app_handleIncorrectAnswer cp s1)))"

definition app_showHint :: "gameState \<Rightarrow> notice option \<times> gameState" where
  "app_showHint s =
     (case currentPuzzle s of
        None \<Rightarrow> (None, s)
      | Some cp \<Rightarrow>
          let hints' = (case hints (puzzle cp) of None \<Rightarrow> [] | Some hs \<Rightarrow> hs);
              hintIndex = min (hintsUsed cp) (int (length hints') - 1)
          in if hintIndex \<ge> int (length hints') then (Some NoMoreHints, s)
             else (None, s\<lparr> currentPuzzle := Some (cp\<lparr> hintsUsed := hintsUsed cp + 1 \<rparr>),
                     analytics := (analytics s)\<lparr> analytics_hintsUsed :=
                       analytics_hintsUsed (analytics s) + 1 \<rparr> \<rparr>))"

definition app_resetPuzzle :: "int \<Rightarrow> gameState \<Rightarrow> notice option \<times> gameState" where
  "app_resetPuzzle now s =
     (case currentPuzzle s of
        None \<Rightarrow> (None, s)
      | Some cp \<Rightarrow>
          (None, s\<lparr> currentPuzzle := Some (cp\<lparr> attempts := 0, hintsUsed := 0, startTime := now \<rparr>) \<rparr>))"

definition app_nextPuzzle :: "int \<Rightarrow> gameState \<Rightarrow> notice option \<times> gameState" where
  "app_nextPuzzle now s =
     (case currentPuzzle s of
        None \<Rightarrow> (None, s)
      | Some cp \<Rightarrow>
          (case map_of (chambers s) (chamberId cp) of
             None \<Rightarrow> (Some (Threw TypeError), s)
           | Some chamber \<Rightarrow>
               let nextIndex = puzzleIndex cp + 1
               in if nextIndex < int (length (puzzles chamber))
                  then app_startPuzzle (chamberId cp) nextIndex now s
                  else (Some ChamberCompleted, s)))"

definition app_loadGameData_try :: "stored \<Rightarrow> progressState \<Rightarrow> exn option \<times> progressState" where
  "app_loadGameData_try savedData s =
     (case savedData of
        Inaccessible \<Rightarrow> (Some SecurityError, s)
      | Absent \<Rightarrow> (None, s)
      | EmptyText \<Rightarrow> (None, s)
      | Garbage \<Rightarrow> (Some SyntaxError, s)
      | Document data \<Rightarrow>
          (case get_property data ''user'' of
             Inl e \<Rightarrow> (Some e, s)
           | Inr data_user \<Rightarrow>
               let s1 = s\<lparr> user_object := spread (user_object s) data_user \<rparr>
               in (case get_property data ''settings'' of
                     Inl e \<Rightarrow> (Some e, s1)
                   | Inr data_settings \<Rightarrow>
                       let s2 = s1\<lparr> settings_object := spread (settings_object s1) data_settings \<rparr>
                       in (case get_property data ''chambers'' of
                             Inl e \<Rightarrow> (Some e, s2)
                           | Inr data_chambers \<Rightarrow>
                               if truthy data_chambers
                               then (case new_Map data_chambers of
                                       Inl e \<Rightarrow> (Some e, s2)
                                     | Inr m \<Rightarrow> (None, s2\<lparr> chambers_map := m \<rparr>))
                               else (None, s2)))))"

definition app_loadGameData :: "stored \<Rightarrow> progressState \<Rightarrow> exn option \<times> progressState" where
  "app_loadGameData savedData s =
     (case app_loadGameData_try savedData s of
        (None, s') \<Rightarrow> (None, s')
      | (Some e, s') \<Rightarrow> (None, s'))"

definition app_saveGameData :: "progressState \<Rightarrow> int \<Rightarrow> json" where
  "app_saveGameData s now =
     JObj [(''user'', JObj (user_object s)),
           (''settings'', JObj (settings_object s)),
           (''chambers'', JArr (map (\<lambda>(k, v). JArr [jsonify k, jsonify v]) (chambers_map s))),
           (''lastSaved'', JNum now)]"

section \<open>Concrete states used below\<close>


text \<open>The variant of the level-up loop: it bounds the passes still to come.\<close>

definition loopBound :: "gameState \<Rightarrow> nat" where
  "loopBound s =
     (let u = user s
      in if xpToNext u = calculateXPForNextLevel (level u) then nat (1 - level u) + nat (xp u)
         else nat (- level u) + nat (xp u - xpToNext u) + 1)"

text \<open>
  The chamber \<^verbatim>\<open>'deductive-reasoning'\<close> as \<^verbatim>\<open>initializeChambers\<close> creates it: it is not among
  the \<^verbatim>\<open>implementedChambers\<close> of \<^verbatim>\<open>loadChamberPuzzles\<close>, so its \<^verbatim>\<open>puzzles\<close> stay empty.
\<close>

definition deductive :: chamber where
  "deductive = \<lparr> unlockLevel = 5, puzzleCount = 25,
     progress = \<lparr> completed = 0, total = 25 \<rparr>, puzzles = [] \<rparr>"


definition level3_state :: gameState where
  "level3_state = (initial_state [(''deductive-reasoning'', deductive)])
      \<lparr> user := initial_user \<lparr> level := 3, xpToNext := 121 \<rparr> \<rparr>"

text \<open>The first puzzle \<^verbatim>\<open>generatePlaceholderPuzzles\<close> makes, with its three hints.\<close>

definition placeholder :: puzzle where
  "placeholder = \<lparr> puzzle_id = ''pattern-recognition_1'', correctAnswer = NumAnswer 0,
     hints = Some [''First hint for puzzle 1'', ''Second hint for puzzle 1'',
       ''Final hint for puzzle 1''],
     points = Some 10 \<rparr>"

definition pattern :: chamber where
  "pattern = \<lparr> unlockLevel = 1, puzzleCount = 25,
     progress = \<lparr> completed = 0, total = 25 \<rparr>, puzzles = [placeholder] \<rparr>"

definition fresh_state :: gameState where
  "fresh_state = initial_state [(''pattern-recognition'', pattern)]"

text \<open>A live attempt on that puzzle with all three hints already shown.\<close>

definition hinted_state :: gameState where
  "hinted_state = fresh_state
     \<lparr> currentChamber := Some ''pattern-recognition'',
       currentPuzzle := Some \<lparr> chamberId = ''pattern-recognition'', puzzleIndex = 0,
         puzzle = placeholder, startTime = 0, hintsUsed = 3, attempts = 0 \<rparr> \<rparr>"


text \<open>A save that lacks most of its fields and whose \<^verbatim>\<open>chambers\<close> cannot be iterated.\<close>

definition partial_save :: json where
  "partial_save = JObj [(''user'', JObj [(''level'', JNum 4)]), (''chambers'', JNum 7)]"


section \<open>Properties of the progression engine\<close>

lemma calc_nonneg: "0 \<le> calculateXPForNextLevel l"
  by (simp add: calculateXPForNextLevel_def power_int_def)

lemma calc_ge_100: "1 \<le> l \<Longrightarrow> 100 \<le> calculateXPForNextLevel l"
proof -
  assume "1 \<le> l"
  then have "(1::rat) \<le> power_int (11 / 10) (l - 1)"
    by (simp add: power_int_def one_le_power)
  then have "(100::rat) \<le> 100 * power_int (11 / 10) (l - 1)" by simp
  then show ?thesis unfolding calculateXPForNextLevel_def by (simp add: le_floor_iff)
qed

lemma levelUp_fields:
  "level (user (levelUp s)) = level (user s) + 1"
  "xp (user (levelUp s)) = xp (user s) - xpToNext (user s)"
  "xpToNext (user (levelUp s)) = calculateXPForNextLevel (level (user s) + 1)"
  by (simp_all add: levelUp_def updateUnlockedChambers_def Let_def)

lemma loopBound_levelUp:
  assumes "xpToNext (user s) \<le> xp (user s)"
  shows "loopBound (levelUp s) < loopBound s"
proof (cases "xpToNext (user s) = calculateXPForNextLevel (level (user s))")
  case True
  show ?thesis
  proof (cases "1 \<le> level (user s)")
    case True
    with calc_ge_100 [of "level (user s)"] assms \<open>xpToNext (user s) = _\<close>
    show ?thesis by (simp add: loopBound_def levelUp_fields Let_def)
  next
    case False
    with calc_nonneg [of "level (user s)"] assms \<open>xpToNext (user s) = _\<close>
    show ?thesis by (simp add: loopBound_def levelUp_fields Let_def)
  qed
next
  case False
  then show ?thesis by (simp add: loopBound_def levelUp_fields Let_def)
qed


















section \<open>Properties of the scoring\<close>

lemma half_floor: "\<lfloor>5 / 2 :: rat\<rfloor> = 2"
  by (simp add: floor_eq_iff)

text \<open>
  C2. With base points of at least 1 (so that \<^verbatim>\<open>puzzle.points || 10\<close> is the points), a
  non-negative elapsed time, a non-negative number of hints and at least one attempt, the
  score of a correct answer is \<open>max(1, basePoints + timeBonus - 2 * hints - (attempts - 1))\<close>
  with the time bonus 5 up to 30000 ms, 2 up to 60000 ms and 0 beyond; it is at least 1.
\<close>

theorem score_formula:
  assumes "points (puzzle cp) = Some bp" and "1 \<le> bp" and "0 \<le> now - startTime cp"
    and "0 \<le> hintsUsed cp" and "1 \<le> attempts cp"
  shows "finalScore cp now =
           max 1 (bp + (if now - startTime cp \<le> 30000 then 5
                        else if now - startTime cp \<le> 60000 then 2 else 0)
                  - 2 * hintsUsed cp - (attempts cp - 1))
         \<and> 1 \<le> finalScore cp now"
proof -
  have "calculateTimeBonus (startTime cp) now =
          (if now - startTime cp \<le> 30000 then 5 else if now - startTime cp \<le> 60000 then 2 else 0)"
    by (simp add: calculateTimeBonus_def Let_def half_floor)
  moreover have "basePoints (puzzle cp) = bp"
    using assms(1,2) by (simp add: basePoints_def)
  ultimately show ?thesis
    by (simp add: finalScore_def Let_def mult.commute)
qed

text \<open>Scenario C of the specification: five hints and five attempts reach the floor.\<close>

theorem score_formula_witness:
  "points (puzzle \<lparr> chamberId = ''pattern-recognition'', puzzleIndex = 0, puzzle = placeholder,
       startTime = 0, hintsUsed = 5, attempts = 5 \<rparr>) = Some 10
   \<and> (1 :: int) \<le> 10 \<and> (0 :: int) \<le> 20000 - 0 \<and> (0 :: int) \<le> 5 \<and> (1 :: int) \<le> 5
   \<and> finalScore \<lparr> chamberId = ''pattern-recognition'', puzzleIndex = 0, puzzle = placeholder,
       startTime = 0, hintsUsed = 5, attempts = 5 \<rparr> 20000 = 1"
  using score_formula [of "\<lparr> chamberId = ''pattern-recognition'', puzzleIndex = 0,
       puzzle = placeholder, startTime = 0, hintsUsed = 5, attempts = 5 \<rparr>" 10 20000]
  by (simp add: placeholder_def)

section \<open>Properties of the session controller\<close>

text \<open>
  C7. Entering a chamber whose unlock level is above the user's level shows the
  not-unlocked message and leaves the whole game state as it was: user profile, chambers
  with their progress, current chamber and current puzzle attempt.
\<close>

theorem enterChamber_locked_changes_nothing:
  assumes "map_of (chambers s) cid = Some c" and "level (user s) < unlockLevel c"
  shows "enterChamber cid now s = (Some NotUnlocked, s)"
  using assms by (simp add: enterChamber_def)

text \<open>Scenario E of the specification: unlock level 5, user level 3.\<close>

theorem enterChamber_locked_changes_nothing_witness:
  "map_of (chambers level3_state) ''deductive-reasoning'' = Some deductive
   \<and> level (user level3_state) < unlockLevel deductive
   \<and> enterChamber ''deductive-reasoning'' 1000 level3_state = (Some NotUnlocked, level3_state)"
  using enterChamber_locked_changes_nothing [of level3_state "''deductive-reasoning''" deductive 1000]
  by (simp add: level3_state_def initial_state_def initial_user_def deductive_def)




text \<open>
  C4. With all three hints of the placeholder puzzle already shown, \<^verbatim>\<open>showHint\<close> shows no
  message and raises \<open>hintsUsed\<close> to 4: \<^verbatim>\<open>hintIndex\<close> is \<^verbatim>\<open>Math.min(hintsUsed, hints.length - 1)\<close>,
  which is never \<^verbatim>\<open>>= hints.length\<close>, so the no-more-hints branch is dead.
\<close>

theorem showHint_past_last_hint:
  "showHint hinted_state =
     (None, hinted_state
        \<lparr> currentPuzzle := Some \<lparr> chamberId = ''pattern-recognition'', puzzleIndex = 0,
            puzzle = placeholder, startTime = 0, hintsUsed = 4, attempts = 0 \<rparr>,
          analytics := \<lparr> puzzleAttempts = 0, analytics_hintsUsed = 1, timeSpent = 0 \<rparr> \<rparr>)
   \<and> hints (puzzle (the (currentPuzzle hinted_state))) = Some [''First hint for puzzle 1'',
        ''Second hint for puzzle 1'', ''Final hint for puzzle 1'']
   \<and> fst (showHint s) \<noteq> Some NoMoreHints"
  by (simp add: showHint_def hinted_state_def fresh_state_def initial_state_def placeholder_def
      Let_def split: option.splits)

section \<open>Properties of the persistence\<close>

lemma map_of_set_property: "map_of (set_property name v obj) = (map_of obj)(name \<mapsto> v)"
  by (induction obj) (auto simp: fun_eq_iff)

lemma map_of_fold_set_property:
  "map_of (fold (\<lambda>(name, v). set_property name v) ps a) = map_of a ++ map_of (rev ps)"
proof (induction ps arbitrary: a)
  case Nil
  show ?case by simp
next
  case (Cons p ps)
  obtain name v where p: "p = (name, v)" by (cases p)
  show ?case
    by (simp add: Cons p map_of_set_property map_of_append fun_eq_iff map_add_def
        split: option.splits)
qed


text \<open>A property the saved object lacks keeps the value it had.\<close>

lemma spread_missing:
  assumes "name \<notin> fst ` set (own_properties b)"
  shows "map_of (spread a b) name = map_of a name"
proof -
  from assms have "map_of (rev (own_properties b)) name = None"
    by (simp add: map_of_eq_None_iff)
  then show ?thesis
    by (simp add: spread_def map_of_fold_set_property map_add_def)
qed





text \<open>The object of a typed profile has the constructor's properties, each once.\<close>

lemma user_json_shape:
  "distinct (map fst (user_json u))
   \<and> fst ` set (user_json initial_user) \<subseteq> fst ` set (user_json u)"
  by (simp add: user_json_def)



text \<open>
  C8. No exception leaves \<^verbatim>\<open>loadGameData\<close>, whatever the stored text is. When the text
  cannot be read (storage blocked, nothing stored, not JSON) or is not a JSON object, the
  state stays as it was, which for \<open>load\<close> is the constructor's default state. When it is
  a JSON object, every property that the saved \<^verbatim>\<open>user\<close> or \<^verbatim>\<open>settings\<close> lacks keeps its
  value from before, and the chambers Map stays as it was when \<^verbatim>\<open>chambers\<close> is missing,
  falsy or cannot be made into a Map.
\<close>

theorem loadGameData_never_throws:
  "fst (loadGameData savedData s) = None
   \<and> (savedData \<in> {Inaccessible, Absent, EmptyText, Garbage}
        \<longrightarrow> snd (loadGameData savedData s) = s)
   \<and> ((\<forall>props. data \<noteq> JObj props) \<longrightarrow> snd (loadGameData (Document data) s) = s)
   \<and> (name \<notin> fst ` set (own_properties (map_of props ''user'')) \<longrightarrow>
        map_of (user_object (snd (loadGameData (Document (JObj props)) s))) name
          = map_of (user_object s) name)
   \<and> (name \<notin> fst ` set (own_properties (map_of props ''settings'')) \<longrightarrow>
        map_of (settings_object (snd (loadGameData (Document (JObj props)) s))) name
          = map_of (settings_object s) name)
   \<and> (\<not> truthy (map_of props ''chambers'')
        \<or> new_Map (map_of props ''chambers'') = Inl TypeError \<longrightarrow>
        chambers_map (snd (loadGameData (Document (JObj props)) s)) = chambers_map s)
   \<and> load Garbage = initial_progress"
proof -
  have 1: "fst (loadGameData savedData s) = None"
    by (simp add: loadGameData_def split: prod.splits option.splits)
  have 2: "savedData \<in> {Inaccessible, Absent, EmptyText, Garbage}
        \<longrightarrow> snd (loadGameData savedData s) = s"
    by (auto simp: loadGameData_def loadGameData_try_def)
  have 3: "(\<forall>props. data \<noteq> JObj props) \<longrightarrow> snd (loadGameData (Document data) s) = s"
    by (cases data) (simp_all add: loadGameData_def loadGameData_try_def spread_def)
  have 4: "name \<notin> fst ` set (own_properties (map_of props ''user'')) \<longrightarrow>
        map_of (user_object (snd (loadGameData (Document (JObj props)) s))) name
          = map_of (user_object s) name"
    by (auto simp: loadGameData_def loadGameData_try_def Let_def spread_missing
        split: sum.splits)
  have 5: "name \<notin> fst ` set (own_properties (map_of props ''settings'')) \<longrightarrow>
        map_of (settings_object (snd (loadGameData (Document (JObj props)) s))) name
          = map_of (settings_object s) name"
    by (auto simp: loadGameData_def loadGameData_try_def Let_def spread_missing
        split: sum.splits)
  have 6: "\<not> truthy (map_of props ''chambers'')
        \<or> new_Map (map_of props ''chambers'') = Inl TypeError \<longrightarrow>
        chambers_map (snd (loadGameData (Document (JObj props)) s)) = chambers_map s"
    by (auto simp: loadGameData_def loadGameData_try_def Let_def split: sum.splits)
  have 7: "load Garbage = initial_progress"
    by (simp add: load_def loadGameData_def loadGameData_try_def)
  from 1 2 3 4 5 6 7 show ?thesis by blast
qed

text \<open>
  The block does throw on some inputs (here \<^verbatim>\<open>new Map(7)\<close>, after the user object has been
  merged), and the exception stays inside: the saved level is taken, the missing \<open>xp\<close>
  keeps its default, the chambers stay empty.
\<close>

theorem loadGameData_never_throws_witness:
  "fst (loadGameData_try (Document partial_save) initial_progress) = Some TypeError
   \<and> fst (loadGameData (Document partial_save) initial_progress) = None
   \<and> snd (loadGameData Garbage initial_progress) = initial_progress
   \<and> snd (loadGameData (Document JNull) initial_progress) = initial_progress
   \<and> map_of (user_object (load (Document partial_save))) ''level'' = Some (JNum 4)
   \<and> map_of (user_object (load (Document partial_save))) ''xp'' = Some (JNum 0)
   \<and> map_of (settings_object (load (Document partial_save))) ''fontSize'' = Some (JStr ''medium'')
   \<and> chambers_map (load (Document partial_save)) = []"
proof -
  have thrown: "loadGameData_try (Document partial_save) initial_progress =
      (Some TypeError, initial_progress\<lparr> user_object :=
         user_json (initial_user\<lparr> level := 4 \<rparr>) \<rparr>)"
    by (simp add: loadGameData_try_def partial_save_def initial_progress_def spread_def
        user_json_def initial_user_def)
  note t = loadGameData_never_throws [of "Garbage" initial_progress JNull "''xp''"
      "[(''user'', JObj [(''level'', JNum 4)]), (''chambers'', JNum 7)]"]
  from t have a: "snd (loadGameData Garbage initial_progress) = initial_progress"
    by simp
  from t have b: "snd (loadGameData (Document JNull) initial_progress) = initial_progress"
    by simp
  from t have c: "map_of (user_object (load (Document partial_save))) ''xp''
      = map_of (user_object initial_progress) ''xp''"
    by (simp add: partial_save_def load_def)
  have d: "load (Document partial_save) = initial_progress\<lparr> user_object :=
         user_json (initial_user\<lparr> level := 4 \<rparr>) \<rparr>"
    by (simp add: load_def loadGameData_def thrown)
  show ?thesis
    unfolding a b c
    by (simp add: thrown loadGameData_def d)
      (simp add: initial_progress_def user_json_def initial_user_def initial_settings_def)
qed

section \<open>The bundle and the core\<close>

lemma app_calculateXPForNextLevel_eq: "app_calculateXPForNextLevel = calculateXPForNextLevel"
  unfolding fun_eq_iff app_calculateXPForNextLevel_def calculateXPForNextLevel_def
  by simp

lemma app_updateUnlockedChambers_eq: "app_updateUnlockedChambers = updateUnlockedChambers"
  unfolding fun_eq_iff app_updateUnlockedChambers_def updateUnlockedChambers_def
  by simp

lemma app_levelUp_eq: "app_levelUp = levelUp"
  unfolding fun_eq_iff app_levelUp_def levelUp_def app_calculateXPForNextLevel_eq app_updateUnlockedChambers_eq
  by simp

lemma app_levelUpLoop_eq: "app_levelUpLoop s = levelUpLoop s"
proof (induction "loopBound s" arbitrary: s rule: less_induct)
  case less
  show ?case
  proof (cases "xpToNext (user s) \<le> xp (user s)")
    case True
    have "app_levelUpLoop s = app_levelUpLoop (levelUp s)"
      using True by (subst app_levelUpLoop.simps) (simp add: app_levelUp_eq)
    also have "\<dots> = levelUpLoop (levelUp s)"
      by (rule less [OF loopBound_levelUp [OF True]])
    also have "\<dots> = levelUpLoop s"
      using True by (subst (2) levelUpLoop.simps) simp
    finally show ?thesis .
  next
    case False
    then show ?thesis
      by (subst app_levelUpLoop.simps, subst levelUpLoop.simps) simp
  qed
qed

lemma app_addXP_eq: "app_addXP = addXP"
  unfolding fun_eq_iff app_addXP_def addXP_def app_levelUpLoop_eq
  by simp

lemma app_finalScore_eq: "app_finalScore = finalScore"
  unfolding fun_eq_iff app_finalScore_def finalScore_def app_calculateTimeBonus_def calculateTimeBonus_def app_basePoints_def basePoints_def
  by simp

lemma app_startPuzzle_eq: "app_startPuzzle = startPuzzle"
  unfolding fun_eq_iff app_startPuzzle_def startPuzzle_def
  by simp

lemma app_enterChamber_eq: "app_enterChamber = enterChamber"
  unfolding fun_eq_iff app_enterChamber_def enterChamber_def app_startPuzzle_eq
  by simp

lemma app_validateAnswer_eq: "app_validateAnswer u c = validateAnswer u c"
  by (induction u c rule: validateAnswer.induct) simp_all

lemma app_handleCorrectAnswer_eq: "app_handleCorrectAnswer = handleCorrectAnswer"
  unfolding fun_eq_iff app_handleCorrectAnswer_def handleCorrectAnswer_def app_finalScore_eq app_addXP_eq
  by simp

lemma app_handleIncorrectAnswer_eq: "app_handleIncorrectAnswer = handleIncorrectAnswer"
  unfolding fun_eq_iff app_handleIncorrectAnswer_def handleIncorrectAnswer_def
  by simp

lemma app_checkAnswer_eq: "app_checkAnswer = checkAnswer"
  unfolding fun_eq_iff app_checkAnswer_def checkAnswer_def app_validateAnswer_eq app_handleCorrectAnswer_eq app_handleIncorrectAnswer_eq
  by simp

lemma app_showHint_eq: "app_showHint = showHint"
  unfolding fun_eq_iff app_showHint_def showHint_def
  by simp

lemma app_resetPuzzle_eq: "app_resetPuzzle = resetPuzzle"
  unfolding fun_eq_iff app_resetPuzzle_def resetPuzzle_def
  by simp

lemma app_nextPuzzle_eq: "app_nextPuzzle = nextPuzzle"
  unfolding fun_eq_iff app_nextPuzzle_def nextPuzzle_def app_startPuzzle_eq
  by simp

lemma app_loadGameData_eq: "app_loadGameData = loadGameData"
  unfolding fun_eq_iff app_loadGameData_def loadGameData_def app_loadGameData_try_def loadGameData_try_def
  by simp

lemma app_saveGameData_eq: "app_saveGameData = saveGameData"
  unfolding fun_eq_iff app_saveGameData_def saveGameData_def
  by simp

text \<open>
  C9. The class MindForge of \<^verbatim>\<open>public/js/app.js\<close> and the class MindForge of
  \<^verbatim>\<open>src/js/core/game.js\<close> compute the same function for each core operation: the same
  message or exception and the same resulting state from every state and every input
  (for \<^verbatim>\<open>checkAnswer\<close> and \<^verbatim>\<open>addXP\<close> also the same termination).
\<close>

theorem bundle_equals_core:
  "app_enterChamber = enterChamber \<and> app_checkAnswer = checkAnswer
   \<and> app_showHint = showHint \<and> app_resetPuzzle = resetPuzzle
   \<and> app_nextPuzzle = nextPuzzle \<and> app_addXP = addXP
   \<and> app_saveGameData = saveGameData \<and> app_loadGameData = loadGameData"
  by (simp add: app_enterChamber_eq app_checkAnswer_eq app_showHint_eq app_resetPuzzle_eq
      app_nextPuzzle_eq app_addXP_eq app_saveGameData_eq app_loadGameData_eq)

end
